theory Spec2Isabelle
  imports Main
begin

section \<open>The application shell of \<open>src/App.tsx\<close>\<close>

text \<open>
  \<open>App.tsx\<close> is one React component. Its state is five \<open>useState\<close> cells, one
  \<open>useRef\<close> cell holding the mounted WebView (or \<open>null\<close>) and one module-level variable
  \<open>lastAdTime\<close>. Every piece of logic is an event handler that reads this state, calls
  setters and calls into a platform library (the ad SDK, the WebView, \<open>Alert\<close>,
  \<open>BackHandler\<close>, \<open>console\<close>, \<open>setTimeout\<close>).

  The embedding: the state is a record; a handler is a function from the state to the new
  state and the list of library calls it makes, in program order; the JSX of the render
  function is the list of elements it returns. Time enters only through \<open>Date.now()\<close>,
  which the LOADED event carries as an integer of milliseconds.

  The start-up routine (lines 52 to 79) asks for a permission, initialises the ad SDK and
  calls \<open>load()\<close> once, swallowing any failure; it writes no state. A session therefore
  begins at the mount, and its first LOADED event, if any, answers that \<open>load()\<close>. The
  clean-up functions of the effects run at unmount, which ends the session.
\<close>

subsection \<open>State\<close>

text \<open>
  \<open>lastAdTime\<close> is \<open>number | null\<close>, initially \<open>null\<close> (line 30); it belongs to the module,
  so it survives a remount of the component. \<open>webViewRef\<close> is the \<open>current\<close> field of
  \<open>useRef<WebView>(null)\<close> (line 39): \<open>True\<close> when it holds a WebView instance, \<open>False\<close>
  when it is \<open>null\<close>.
\<close>

record app_state =
  lastAdTime :: "int option"
  showWebView :: bool
  isLoading :: bool
  canGoBack :: bool
  refreshing :: bool
  isConnected :: bool
  webViewRef :: bool

text \<open>The \<open>useState\<close> defaults of lines 33 to 37, for a component mounted while the
  module variable holds \<open>l\<close>.\<close>

definition mount :: "int option \<Rightarrow> app_state" where
  "mount l = \<lparr>lastAdTime = l, showWebView = False, isLoading = True, canGoBack = False,
              refreshing = False, isConnected = True, webViewRef = False\<rparr>"

text \<open>The first mount of a process: \<open>lastAdTime\<close> is still \<open>null\<close>.\<close>

definition initial_state :: app_state where
  "initial_state = mount None"

subsection \<open>Library calls\<close>

datatype console_msg =
    ShowingInterstitial      \<comment> \<open>line 92\<close>
  | InterstitialSkipped      \<comment> \<open>line 96\<close>
  | InterstitialClosed       \<comment> \<open>line 106\<close>
  | WebViewErrorMsg          \<comment> \<open>line 174\<close>

datatype effect =
    ConsoleLog console_msg
  | ConsoleWarn console_msg
  | InterstitialShow         \<comment> \<open>\<open>interstitialRef.current.show()\<close>\<close>
  | InterstitialLoad         \<comment> \<open>\<open>interstitialRef.current.load()\<close>\<close>
  | WebViewGoBack            \<comment> \<open>\<open>webViewRef.current.goBack()\<close>\<close>
  | WebViewReload            \<comment> \<open>\<open>webViewRef.current.reload()\<close>\<close>
  | AlertExitApp             \<comment> \<open>\<open>Alert.alert('Exit App', ...)\<close> with buttons Cancel and Exit\<close>
  | SetTimeout nat           \<comment> \<open>\<open>setTimeout(() => setRefreshing(false), ms)\<close>\<close>
  | BackHandlerExitApp       \<comment> \<open>\<open>BackHandler.exitApp()\<close>\<close>

subsection \<open>Render (lines 156 to 210)\<close>

datatype element =
    LoadingOverlay
  | WebView bool             \<comment> \<open>the flag is \<open>refreshing\<close> of its RefreshControl\<close>
  | OfflineScreen bool       \<comment> \<open>message, RefreshControl and the Try Again button\<close>
  | BannerAd

definition render :: "app_state \<Rightarrow> element list" where
  "render s =
     (if showWebView s then
        (if isConnected s then
           (if isLoading s then [LoadingOverlay] else []) @ [WebView (refreshing s)]
         else [OfflineScreen (refreshing s)])
      else [])
     @ [BannerAd]"

fun isWebView :: "element \<Rightarrow> bool" where
  "isWebView (WebView r) = True"
| "isWebView e = False"

fun isOfflineScreen :: "element \<Rightarrow> bool" where
  "isOfflineScreen (OfflineScreen r) = True"
| "isOfflineScreen e = False"

text \<open>
  React attaches \<open>ref={webViewRef}\<close> when the WebView element is mounted and resets the
  cell to \<open>null\<close> when it is unmounted. \<open>commit\<close> is the re-render that follows a
  handler's state updates.
\<close>

definition commit :: "app_state \<Rightarrow> app_state" where
  "commit s = s\<lparr>webViewRef := list_ex isWebView (render s)\<rparr>"

subsection \<open>Handlers\<close>

text \<open>Line 49: \<open>setIsConnected(state.isConnected ?? true)\<close>; NetInfo's field is
  \<open>boolean | null\<close>.\<close>

definition onNetInfo :: "bool option \<Rightarrow> app_state \<Rightarrow> app_state \<times> effect list" where
  "onNetInfo c s = (s\<lparr>isConnected := (case c of None \<Rightarrow> True | Some b \<Rightarrow> b)\<rparr>, [])"

text \<open>
  Line 91: \<open>!lastAdTime || now - lastAdTime >= 5 * 60 * 1000\<close>. On \<open>number | null\<close> the
  negation \<open>!lastAdTime\<close> is true for \<open>null\<close> and for the number \<open>0\<close>.
\<close>

definition cooldownElapsed :: "int \<Rightarrow> int option \<Rightarrow> bool" where
  "cooldownElapsed now l =
     (case l of None \<Rightarrow> True | Some t \<Rightarrow> t = 0 \<or> now - t \<ge> 5 * 60 * 1000)"

text \<open>Lines 89 to 100, the LOADED listener; \<open>now\<close> is \<open>Date.now()\<close>.\<close>

definition onLoaded :: "int \<Rightarrow> app_state \<Rightarrow> app_state \<times> effect list" where
  "onLoaded now s =
     (if cooldownElapsed now (lastAdTime s) then
        (s\<lparr>lastAdTime := Some now\<rparr>, [ConsoleLog ShowingInterstitial, InterstitialShow])
      else
        (s\<lparr>showWebView := True, isLoading := False\<rparr>, [ConsoleLog InterstitialSkipped]))"

text \<open>Lines 105 to 110, the CLOSED listener.\<close>

definition onClosed :: "app_state \<Rightarrow> app_state \<times> effect list" where
  "onClosed s =
     (s\<lparr>showWebView := True, isLoading := False\<rparr>,
      [ConsoleLog InterstitialClosed, InterstitialLoad])"

text \<open>
  Lines 120 to 136. The closure is re-created whenever \<open>showWebView\<close> or \<open>canGoBack\<close>
  changes (line 144), so it reads their current values; \<open>webViewRef.current\<close> is read at
  the call. The second component is the handler's return value.
\<close>

definition backAction :: "app_state \<Rightarrow> effect list \<times> bool" where
  "backAction s =
     (if showWebView s \<and> webViewRef s \<and> canGoBack s then ([WebViewGoBack], True)
      else ([AlertExitApp], True))"

text \<open>The two buttons of the alert (lines 129 and 130).\<close>

datatype alert_button = Cancel | Exit

definition onAlertButton :: "alert_button \<Rightarrow> app_state \<Rightarrow> app_state \<times> effect list" where
  "onAlertButton b s = (case b of Cancel \<Rightarrow> (s, []) | Exit \<Rightarrow> (s, [BackHandlerExitApp]))"

text \<open>Lines 146 to 148.\<close>

definition handleNavigationStateChange :: "bool \<Rightarrow> app_state \<Rightarrow> app_state \<times> effect list" where
  "handleNavigationStateChange navCanGoBack s = (s\<lparr>canGoBack := navCanGoBack\<rparr>, [])"

text \<open>Lines 150 to 154; \<open>webViewRef.current?.reload()\<close> calls \<open>reload\<close> only when the
  cell is not \<open>null\<close>.\<close>

definition handleRefresh :: "app_state \<Rightarrow> app_state \<times> effect list" where
  "handleRefresh s =
     (s\<lparr>refreshing := True\<rparr>,
      (if webViewRef s then [WebViewReload] else []) @ [SetTimeout 1000])"

text \<open>The callback given to \<open>setTimeout\<close> on line 153.\<close>

definition onRefreshTimeout :: "app_state \<Rightarrow> app_state \<times> effect list" where
  "onRefreshTimeout s = (s\<lparr>refreshing := False\<rparr>, [])"

text \<open>Lines 170 to 176, the WebView's load callbacks.\<close>

definition onLoadStart :: "app_state \<Rightarrow> app_state \<times> effect list" where
  "onLoadStart s = (s\<lparr>isLoading := True\<rparr>, [])"

definition onLoadEnd :: "app_state \<Rightarrow> app_state \<times> effect list" where
  "onLoadEnd s = (s\<lparr>isLoading := False\<rparr>, [])"

definition onError :: "app_state \<Rightarrow> app_state \<times> effect list" where
  "onError s = (s\<lparr>isLoading := False\<rparr>, [ConsoleWarn WebViewErrorMsg])"

subsection \<open>Events and runs\<close>

text \<open>
  The events the component has a handler for. \<open>Refresh\<close> is \<open>handleRefresh\<close>, whether it
  comes from a RefreshControl or from the Try Again button; \<open>RefreshTimeout\<close> is a timer
  of line 153 firing.
\<close>

datatype event =
    NetInfoChange "bool option"
  | AdLoaded int
  | AdClosed
  | HardwareBackPress
  | AlertButton alert_button
  | NavigationStateChange bool
  | Refresh
  | RefreshTimeout
  | LoadStart
  | LoadEnd
  | LoadError

fun handle :: "event \<Rightarrow> app_state \<Rightarrow> app_state \<times> effect list" where
  "handle (NetInfoChange c) s = onNetInfo c s"
| "handle (AdLoaded now) s = onLoaded now s"
| "handle AdClosed s = onClosed s"
| "handle HardwareBackPress s = (s, fst (backAction s))"
| "handle (AlertButton b) s = onAlertButton b s"
| "handle (NavigationStateChange b) s = handleNavigationStateChange b s"
| "handle Refresh s = handleRefresh s"
| "handle RefreshTimeout s = onRefreshTimeout s"
| "handle LoadStart s = onLoadStart s"
| "handle LoadEnd s = onLoadEnd s"
| "handle LoadError s = onError s"

text \<open>One turn of the event loop: the handler, then the re-render.\<close>

definition step :: "event \<Rightarrow> app_state \<Rightarrow> app_state \<times> effect list" where
  "step e s = (commit (fst (handle e s)), snd (handle e s))"

text \<open>The state after a sequence of events, and the library calls made on the way.\<close>

fun final :: "event list \<Rightarrow> app_state \<Rightarrow> app_state" where
  "final [] s = s"
| "final (e # es) s = final es (fst (step e s))"

fun outputs :: "event list \<Rightarrow> app_state \<Rightarrow> effect list" where
  "outputs [] s = []"
| "outputs (e # es) s = snd (step e s) @ outputs es (fst (step e s))"

text \<open>How often \<open>showWebView\<close> goes from \<open>false\<close> to \<open>true\<close> along a sequence of events.\<close>

fun flips :: "event list \<Rightarrow> app_state \<Rightarrow> nat" where
  "flips [] s = 0"
| "flips (e # es) s =
     (if \<not> showWebView s \<and> showWebView (fst (step e s)) then 1 else 0)
     + flips es (fst (step e s))"

text \<open>The values \<open>Date.now()\<close> returned in a session, one per LOADED event.\<close>

fun clockReadings :: "event list \<Rightarrow> int list" where
  "clockReadings [] = []"
| "clockReadings (AdLoaded now # es) = now # clockReadings es"
| "clockReadings (e # es) = clockReadings es"

subsection \<open>Sessions used as examples\<close>

text \<open>
  A launch at \<open>Date.now() = 1700000000000\<close>: the ad loads and is shown, and the user closes
  it, which reveals the content and requests the next ad.
\<close>

definition launch :: "event list" where
  "launch = [AdLoaded 1700000000000, AdClosed]"

text \<open>The preloaded ad arrives three seconds after the first one was shown.\<close>

definition launch_and_preload :: "event list" where
  "launch_and_preload = launch @ [AdLoaded 1700000003000]"

text \<open>The user follows a link, so the WebView reports a history, and then the network
  drops.\<close>

definition browse_then_offline :: "event list" where
  "browse_then_offline =
     launch @ [LoadEnd, NavigationStateChange True, NetInfoChange (Some False)]"

text \<open>The network drops after the launch.\<close>

definition offline_after_launch :: "event list" where
  "offline_after_launch = launch @ [LoadEnd, NetInfoChange (Some False)]"

section \<open>Basic facts\<close>

lemmas handler_defs =
  onNetInfo_def onLoaded_def onClosed_def backAction_def onAlertButton_def
  handleNavigationStateChange_def handleRefresh_def onRefreshTimeout_def
  onLoadStart_def onLoadEnd_def onError_def

lemma list_ex_render: "list_ex isWebView (render s) = (showWebView s \<and> isConnected s)"
  by (simp add: render_def)

lemma commit_fields [simp]:
  "lastAdTime (commit s) = lastAdTime s"
  "showWebView (commit s) = showWebView s"
  "isLoading (commit s) = isLoading s"
  "canGoBack (commit s) = canGoBack s"
  "refreshing (commit s) = refreshing s"
  "isConnected (commit s) = isConnected s"
  "webViewRef (commit s) = (showWebView s \<and> isConnected s)"
  by (simp_all add: commit_def list_ex_render)

lemma render_commit [simp]: "render (commit s) = render s"
  by (simp add: render_def)

text \<open>No handler resets \<open>showWebView\<close>.\<close>

lemma handle_showWebView_mono: "showWebView s \<Longrightarrow> showWebView (fst (handle e s))"
  by (cases e) (auto simp: handler_defs split: alert_button.splits)

lemma step_showWebView_mono: "showWebView s \<Longrightarrow> showWebView (fst (step e s))"
  by (simp add: step_def handle_showWebView_mono)

lemma final_showWebView_mono: "showWebView s \<Longrightarrow> showWebView (final es s)"
  by (induction es arbitrary: s) (simp_all add: step_showWebView_mono)

section \<open>Connectivity\<close>

text \<open>
  C7. The connectivity flag is \<open>true\<close> on every mount, before any notification; a
  notification whose \<open>isConnected\<close> is \<open>null\<close> stores \<open>true\<close>, and one carrying a boolean
  stores that boolean.
\<close>

theorem connectivity_fail_open:
  "isConnected (mount l) = True
   \<and> isConnected (fst (step (NetInfoChange None) s)) = True
   \<and> isConnected (fst (step (NetInfoChange (Some b)) s)) = b
   \<and> snd (step (NetInfoChange c) s) = []"
  by (simp add: mount_def step_def onNetInfo_def)

section \<open>The interstitial gate\<close>

lemma step_webViewRef:
  "webViewRef (fst (step e s)) = (showWebView (fst (step e s)) \<and> isConnected (fst (step e s)))"
  by (simp add: step_def)

text \<open>In every state a session reaches, the ref cell holds a WebView exactly when the
  content is revealed and the device is online.\<close>

lemma final_webViewRef:
  "webViewRef s = (showWebView s \<and> isConnected s) \<Longrightarrow>
   webViewRef (final es s) = (showWebView (final es s) \<and> isConnected (final es s))"
  by (induction es arbitrary: s) (simp_all add: step_webViewRef)

lemma mount_webViewRef: "webViewRef (mount l) = (showWebView (mount l) \<and> isConnected (mount l))"
  by (simp add: mount_def)

text \<open>What the LOADED handler decides, in general: the ad is shown exactly when
  \<open>lastAdTime\<close> is \<open>null\<close>, is \<open>0\<close>, or lies at least 300000 ms back.\<close>

lemma onLoaded_show_iff:
  "(InterstitialShow \<in> set (snd (step (AdLoaded now) s))) =
     (case lastAdTime s of None \<Rightarrow> True | Some t \<Rightarrow> t = 0 \<or> now - t \<ge> 300000)"
  by (simp add: step_def onLoaded_def cooldownElapsed_def split: option.splits)

lemma onLoaded_skip:
  "\<not> cooldownElapsed now (lastAdTime s) \<Longrightarrow>
   step (AdLoaded now) s = (commit (s\<lparr>showWebView := True, isLoading := False\<rparr>),
                            [ConsoleLog InterstitialSkipped])"
  by (simp add: step_def onLoaded_def)

text \<open>\<open>lastAdTime\<close> is written by the LOADED handler only, and only with the clock
  reading of that event.\<close>

lemma step_lastAdTime:
  "lastAdTime (fst (step e s)) = lastAdTime s
   \<or> (\<exists>now. e = AdLoaded now \<and> lastAdTime (fst (step e s)) = Some now)"
  by (cases e) (auto simp: step_def handler_defs split: alert_button.splits)

lemma step_lastAdTime_nonzero:
  assumes "lastAdTime s \<noteq> Some 0" and "0 \<notin> set (clockReadings [e])"
  shows "lastAdTime (fst (step e s)) \<noteq> Some 0"
proof -
  from step_lastAdTime [of e s] show ?thesis
  proof
    assume "lastAdTime (fst (step e s)) = lastAdTime s"
    with assms(1) show ?thesis by simp
  next
    assume "\<exists>now. e = AdLoaded now \<and> lastAdTime (fst (step e s)) = Some now"
    then obtain now where e: "e = AdLoaded now"
      and l: "lastAdTime (fst (step e s)) = Some now" by blast
    from assms(2) e have "now \<noteq> 0" by simp
    with l show ?thesis by simp
  qed
qed

lemma clockReadings_Cons:
  "(0 \<notin> set (clockReadings (e # es))) =
     (0 \<notin> set (clockReadings [e]) \<and> 0 \<notin> set (clockReadings es))"
  by (cases e) simp_all

lemma final_lastAdTime_nonzero:
  "lastAdTime s \<noteq> Some 0 \<Longrightarrow> 0 \<notin> set (clockReadings es) \<Longrightarrow>
   lastAdTime (final es s) \<noteq> Some 0"
proof (induction es arbitrary: s)
  case Nil
  then show ?case by simp
next
  case (Cons e es)
  from Cons.prems(2) clockReadings_Cons [of e es]
  have e: "0 \<notin> set (clockReadings [e])" and es: "0 \<notin> set (clockReadings es)"
    by blast+
  from Cons.prems(1) e have "lastAdTime (fst (step e s)) \<noteq> Some 0"
    by (rule step_lastAdTime_nonzero)
  then have "lastAdTime (final es (fst (step e s))) \<noteq> Some 0"
    using es by (rule Cons.IH)
  then show ?case by simp
qed

text \<open>
  C1. In every session whose clock readings are not \<open>0\<close> (the clock does not stand at
  the epoch itself when an ad loads), started on a mount whose \<open>lastAdTime\<close> is \<open>null\<close>
  or such a reading: when the LOADED handler fires, \<open>show()\<close> is called if and only if
  \<open>lastAdTime\<close> is unset or \<open>now - lastAdTime\<close> is at least 300000 ms, and then
  \<open>lastAdTime\<close> becomes \<open>now\<close> and the content stays as it was; otherwise no ad is shown
  and the content is revealed at once, \<open>showWebView\<close> set to \<open>true\<close> and \<open>isLoading\<close>
  to \<open>false\<close>.
\<close>

theorem cooldown_gate:
  assumes "l \<noteq> Some 0" and "0 \<notin> set (clockReadings es)"
  shows
    "(InterstitialShow \<in> set (snd (step (AdLoaded now) (final es (mount l)))))
       = (case lastAdTime (final es (mount l)) of
            None \<Rightarrow> True | Some t \<Rightarrow> now - t \<ge> 300000)
     \<and> step (AdLoaded now) (final es (mount l))
       = (if (case lastAdTime (final es (mount l)) of
                None \<Rightarrow> True | Some t \<Rightarrow> now - t \<ge> 300000)
          then (commit ((final es (mount l))\<lparr>lastAdTime := Some now\<rparr>),
                [ConsoleLog ShowingInterstitial, InterstitialShow])
          else (commit ((final es (mount l))\<lparr>showWebView := True, isLoading := False\<rparr>),
                [ConsoleLog InterstitialSkipped]))"
proof -
  from assms(1) have "lastAdTime (mount l) \<noteq> Some 0"
    by (simp add: mount_def)
  then have nz: "lastAdTime (final es (mount l)) \<noteq> Some 0"
    using assms(2) by (rule final_lastAdTime_nonzero)
  have c: "cooldownElapsed now (lastAdTime (final es (mount l)))
      = (case lastAdTime (final es (mount l)) of
           None \<Rightarrow> True | Some t \<Rightarrow> now - t \<ge> 300000)"
    using nz by (cases "lastAdTime (final es (mount l))") (auto simp: cooldownElapsed_def)
  show ?thesis
    unfolding c [symmetric] by (simp add: step_def onLoaded_def)
qed

theorem cooldown_gate_witness:
  "None \<noteq> Some (0::int)
   \<and> 0 \<notin> set (clockReadings launch)
   \<and> lastAdTime (final launch (mount None)) = Some 1700000000000
   \<and> snd (step (AdLoaded 1700000003000) (final launch (mount None)))
       = [ConsoleLog InterstitialSkipped]
   \<and> showWebView (fst (step (AdLoaded 1700000003000) (final launch (mount None))))
   \<and> snd (step (AdLoaded 1700000300000) (final launch (mount None)))
       = [ConsoleLog ShowingInterstitial, InterstitialShow]"
proof -
  have h1: "None \<noteq> Some (0::int)" by simp
  have h2: "0 \<notin> set (clockReadings launch)" by (simp add: launch_def)
  have l: "lastAdTime (final launch (mount None)) = Some 1700000000000"
    by (simp add: launch_def mount_def step_def onLoaded_def onClosed_def cooldownElapsed_def)
  from cooldown_gate [OF h1 h2, of 1700000003000] cooldown_gate [OF h1 h2, of 1700000300000]
  show ?thesis
    using h2 by (simp add: l)
qed

lemma flips_final:
  "flips es s = (if \<not> showWebView s \<and> showWebView (final es s) then 1 else 0)"
proof (induction es arbitrary: s)
  case Nil
  show ?case by simp
next
  case (Cons e es)
  show ?case
  proof (cases "showWebView (fst (step e s))")
    case True
    then have "showWebView (final es (fst (step e s)))"
      by (rule final_showWebView_mono)
    with True Cons show ?thesis by simp
  next
    case False
    then have "\<not> showWebView s"
      using step_showWebView_mono by blast
    with False Cons show ?thesis by simp
  qed
qed

text \<open>
  C2, as the specification states it, fails: in one session the first ad is shown and
  the preloaded one is skipped, so both outcomes occur; and in a session in which no ad
  loads, \<open>showWebView\<close> never becomes \<open>true\<close>.
\<close>

theorem single_resolution_counterexample:
  "InterstitialShow \<in> set (outputs launch_and_preload initial_state)
   \<and> ConsoleLog InterstitialSkipped \<in> set (outputs launch_and_preload initial_state)
   \<and> flips [NetInfoChange (Some True), HardwareBackPress] initial_state = 0"
  by (simp add: launch_and_preload_def launch_def initial_state_def mount_def step_def
      handler_defs cooldownElapsed_def)

text \<open>
  C2, amended. Every LOADED event has exactly one of the two outcomes, shown or skipped.
  Along every session \<open>showWebView\<close> goes from \<open>false\<close> to \<open>true\<close> at most once, and
  exactly once when the session ends with the content revealed. Both paths reveal it: a
  CLOSED event always does, and a LOADED event does exactly when it skips the ad.
\<close>

theorem single_resolution:
  "(InterstitialShow \<in> set (snd (step (AdLoaded now) s)))
     = (ConsoleLog InterstitialSkipped \<notin> set (snd (step (AdLoaded now) s)))
   \<and> flips es (mount l) \<le> 1
   \<and> flips es (mount l) = (if showWebView (final es (mount l)) then 1 else 0)
   \<and> showWebView (fst (step AdClosed s))
   \<and> showWebView (fst (step (AdLoaded now) s))
       = (showWebView s \<or> ConsoleLog InterstitialSkipped \<in> set (snd (step (AdLoaded now) s)))"
proof -
  have a: "(InterstitialShow \<in> set (snd (step (AdLoaded now) s)))
     = (ConsoleLog InterstitialSkipped \<notin> set (snd (step (AdLoaded now) s)))"
    by (simp add: step_def onLoaded_def)
  have b: "flips es (mount l) = (if showWebView (final es (mount l)) then 1 else 0)"
    by (simp add: flips_final mount_def)
  have c: "showWebView (fst (step AdClosed s))"
    by (simp add: step_def onClosed_def)
  have d: "showWebView (fst (step (AdLoaded now) s))
       = (showWebView s \<or> ConsoleLog InterstitialSkipped \<in> set (snd (step (AdLoaded now) s)))"
    by (simp add: step_def onLoaded_def)
  from b have "flips es (mount l) \<le> 1" by simp
  with a b c d show ?thesis by blast
qed

text \<open>
  C5. The CLOSED handler sets \<open>showWebView\<close> to \<open>true\<close> and \<open>isLoading\<close> to \<open>false\<close>,
  changes nothing else, and calls \<open>load()\<close> once; whatever events follow, with or without
  a LOADED event for that request, the content stays revealed.
\<close>

theorem closed_reveals_and_preloads:
  "fst (step AdClosed s) = commit (s\<lparr>showWebView := True, isLoading := False\<rparr>)
   \<and> showWebView (fst (step AdClosed s))
   \<and> isLoading (fst (step AdClosed s)) = False
   \<and> snd (step AdClosed s) = [ConsoleLog InterstitialClosed, InterstitialLoad]
   \<and> showWebView (final es (fst (step AdClosed s)))"
proof -
  have r: "showWebView (fst (step AdClosed s))"
    by (simp add: step_def onClosed_def)
  then have "showWebView (final es (fst (step AdClosed s)))"
    by (rule final_showWebView_mono)
  with r show ?thesis
    by (simp add: step_def onClosed_def)
qed

text \<open>
  C10. \<open>showWebView\<close> is \<open>false\<close> on every mount; no handler sets it back to
  \<open>false\<close>; so once it is \<open>true\<close> it is \<open>true\<close> after every sequence of events.
\<close>

theorem showWebView_monotone:
  "showWebView (mount l) = False
   \<and> (showWebView s \<longrightarrow> showWebView (fst (handle e s)))
   \<and> (showWebView s \<longrightarrow> showWebView (final es s))"
  by (simp add: mount_def handle_showWebView_mono final_showWebView_mono)

theorem showWebView_monotone_witness:
  "showWebView (final launch initial_state)
   \<and> showWebView (final [NetInfoChange (Some False), HardwareBackPress, Refresh,
        RefreshTimeout, AdLoaded 1700000900000, LoadStart, LoadError]
        (final launch initial_state))"
proof -
  have h: "showWebView (final launch initial_state)"
    by (simp add: launch_def initial_state_def mount_def step_def handler_defs
        cooldownElapsed_def)
  with showWebView_monotone [of None "final launch initial_state"] show ?thesis
    by blast
qed

section \<open>The hardware back button\<close>

text \<open>
  C3, as the specification states it, fails: with the content revealed and
  \<open>canGoBack = true\<close>, a back-press made while the device is offline shows the exit
  prompt and does not call \<open>goBack()\<close>, because the WebView is unmounted and
  \<open>webViewRef.current\<close> is \<open>null\<close>.
\<close>

theorem back_routing_counterexample:
  "showWebView (final browse_then_offline initial_state)
   \<and> canGoBack (final browse_then_offline initial_state)
   \<and> backAction (final browse_then_offline initial_state) = ([AlertExitApp], True)"
  by (simp add: browse_then_offline_def launch_def initial_state_def mount_def step_def
      handler_defs cooldownElapsed_def)

text \<open>
  C3, amended. In every state a session reaches, a back-press calls \<open>goBack()\<close>, and
  shows no prompt, exactly when the content is revealed, the device is online (so that the
  WebView is mounted) and \<open>canGoBack\<close> is \<open>true\<close>; in every other case it shows the exit
  prompt. The handler returns \<open>true\<close> in every state and changes none. Of all events, only
  the Exit button of the prompt calls \<open>BackHandler.exitApp()\<close>.
\<close>

theorem back_routing:
  "fst (backAction (final es (mount l))) =
     (if showWebView (final es (mount l)) \<and> isConnected (final es (mount l))
         \<and> canGoBack (final es (mount l))
      then [WebViewGoBack] else [AlertExitApp])
   \<and> snd (backAction s) = True
   \<and> fst (step HardwareBackPress s) = commit s
   \<and> (BackHandlerExitApp \<in> set (snd (step e s))) = (e = AlertButton Exit)"
proof -
  have ref: "webViewRef (final es (mount l)) =
      (showWebView (final es (mount l)) \<and> isConnected (final es (mount l)))"
    by (rule final_webViewRef) (rule mount_webViewRef)
  have a: "fst (backAction (final es (mount l))) =
     (if showWebView (final es (mount l)) \<and> isConnected (final es (mount l))
         \<and> canGoBack (final es (mount l))
      then [WebViewGoBack] else [AlertExitApp])"
    by (simp add: backAction_def ref)
  have b: "snd (backAction s) = True"
    by (simp add: backAction_def)
  have c: "fst (step HardwareBackPress s) = commit s"
    by (simp add: step_def)
  have d: "(BackHandlerExitApp \<in> set (snd (step e s))) = (e = AlertButton Exit)"
    by (cases e) (auto simp: step_def handler_defs split: alert_button.splits)
  from a b c d show ?thesis by blast
qed

section \<open>Rendering\<close>

text \<open>
  C4, as the specification states it, fails: when the device goes offline before the
  gate is resolved, the component renders the banner only, not the offline message.
\<close>

theorem offline_rendering_counterexample:
  "isConnected (final [NetInfoChange (Some False)] initial_state) = False
   \<and> render (final [NetInfoChange (Some False)] initial_state) = [BannerAd]"
  by (simp add: initial_state_def mount_def step_def onNetInfo_def render_def)

text \<open>
  C4, amended. The WebView is rendered exactly when the gate is resolved and the device
  is online, so never while it is offline. The offline message with its retry control is
  rendered exactly when the gate is resolved and the device is offline, and then it is all
  that is rendered above the banner. While the gate is unresolved only the banner is
  rendered, whatever the connectivity.
\<close>

theorem offline_rendering:
  "list_ex isWebView (render s) = (showWebView s \<and> isConnected s)
   \<and> list_ex isOfflineScreen (render s) = (showWebView s \<and> \<not> isConnected s)
   \<and> render (s\<lparr>showWebView := True, isConnected := False\<rparr>)
       = [OfflineScreen (refreshing s), BannerAd]
   \<and> render (s\<lparr>showWebView := False\<rparr>) = [BannerAd]"
  by (simp add: render_def)

text \<open>
  C8. The WebView's error handler logs a warning and sets \<open>isLoading\<close> to \<open>false\<close>; it
  leaves the connectivity flag and the gate as they are, so the offline message is rendered
  after it exactly when it was rendered before. The connectivity flag is written by the
  network monitor's notifications and by no other event.
\<close>

theorem webview_error_handling:
  "snd (step LoadError s) = [ConsoleWarn WebViewErrorMsg]
   \<and> isLoading (fst (step LoadError s)) = False
   \<and> isConnected (fst (step LoadError s)) = isConnected s
   \<and> showWebView (fst (step LoadError s)) = showWebView s
   \<and> list_ex isOfflineScreen (render (fst (step LoadError s)))
       = list_ex isOfflineScreen (render s)
   \<and> list_ex isWebView (render (fst (step LoadError s))) = list_ex isWebView (render s)
   \<and> isConnected (fst (step e s))
       = (case e of NetInfoChange c \<Rightarrow> (case c of None \<Rightarrow> True | Some b \<Rightarrow> b)
          | _ \<Rightarrow> isConnected s)"
proof -
  have "isConnected (fst (step e s))
       = (case e of NetInfoChange c \<Rightarrow> (case c of None \<Rightarrow> True | Some b \<Rightarrow> b)
          | _ \<Rightarrow> isConnected s)"
    by (cases e) (simp_all add: step_def handler_defs split: alert_button.splits if_splits)
  then show ?thesis
    by (simp add: step_def onError_def render_def)
qed

section \<open>Refresh and retry\<close>

lemma count_outputs_refresh:
  "count_list (outputs (replicate n Refresh) s) (SetTimeout 1000) = n"
  by (induction n arbitrary: s) (simp_all add: step_def handleRefresh_def)

text \<open>
  C6, as the specification states it, fails: on the offline screen, a second press of
  Try Again while \<open>refreshing\<close> is still \<open>true\<close> schedules a second timer, so two timers
  are pending at once.
\<close>

theorem refresh_idempotence_counterexample:
  "refreshing (final (offline_after_launch @ [Refresh]) initial_state)
   \<and> snd (step Refresh (final (offline_after_launch @ [Refresh]) initial_state))
       = [SetTimeout 1000]
   \<and> count_list (outputs (offline_after_launch @ [Refresh, Refresh]) initial_state)
        (SetTimeout 1000) = 2"
  by (simp add: offline_after_launch_def launch_def initial_state_def mount_def step_def
      handler_defs cooldownElapsed_def)

text \<open>
  C6, amended. \<open>handleRefresh\<close> does not look at \<open>refreshing\<close>: every call sets the
  flag to \<open>true\<close>, calls \<open>reload()\<close> when a WebView is mounted, and schedules a timer of
  1000 ms of its own, so \<open>n\<close> calls in a row schedule \<open>n\<close> timers. A timer that fires
  sets \<open>refreshing\<close> to \<open>false\<close> and touches nothing else, whatever \<open>isLoading\<close> is.
\<close>

theorem refresh_cycle:
  "refreshing (fst (step Refresh s)) = True
   \<and> snd (step Refresh s) = (if webViewRef s then [WebViewReload] else []) @ [SetTimeout 1000]
   \<and> count_list (outputs (replicate n Refresh) s) (SetTimeout 1000) = n
   \<and> refreshing (fst (step RefreshTimeout s)) = False
   \<and> isLoading (fst (step RefreshTimeout s)) = isLoading s
   \<and> snd (step RefreshTimeout s) = []"
  by (simp add: count_outputs_refresh) (simp add: step_def handleRefresh_def onRefreshTimeout_def)

text \<open>
  C9. On the offline screen Try Again does not reach the WebView: the screen shows the
  offline message, the press calls no \<open>reload()\<close> because \<open>webViewRef.current\<close> is
  \<open>null\<close>, it only schedules the timer, and the connectivity flag and the screen stay as
  they were but for the refresh indicator.
\<close>

theorem retry_offline_no_reload:
  "render (final offline_after_launch initial_state) = [OfflineScreen False, BannerAd]
   \<and> webViewRef (final offline_after_launch initial_state) = False
   \<and> snd (step Refresh (final offline_after_launch initial_state)) = [SetTimeout 1000]
   \<and> isConnected (fst (step Refresh (final offline_after_launch initial_state))) = False
   \<and> render (fst (step Refresh (final offline_after_launch initial_state)))
       = [OfflineScreen True, BannerAd]"
  by (simp add: offline_after_launch_def launch_def initial_state_def mount_def step_def
      handler_defs cooldownElapsed_def render_def)

end
